theory Spec2Isabelle
  imports Main "HOL-Library.Sublist"
begin

section \<open>Strings and numbers of the host language\<close>

text \<open>
  The scoring engine is TypeScript. Its strings are sequences of UTF-16 code units; here a
  string is an Isabelle \<open>string\<close> and a \<open>char\<close> stands for the code unit of the same
  number, so the model covers the strings over U+0000..U+00FF. Every accepted label lives
  there (the only character beyond ASCII is a-tilde, U+00E3), and on this range
  \<open>toLowerCase\<close> and \<open>trim\<close> below are the built-ins of the language: the capital
  letters A..Z and U+00C0..U+00DE (without the multiplication sign U+00D7) move up by 32,
  and the white space and line terminators are U+0009..U+000D, U+0020 and U+00A0.

  Item ids and scores are integers (the \<open>item_id\<close> column is an INTEGER); they are
  rendered in decimal, as the language renders an integer number.
\<close>

definition toLowerCaseChar :: "char \<Rightarrow> char" where
  "toLowerCaseChar c =
     (let n = (of_char c :: nat)
      in if (65 \<le> n \<and> n \<le> 90) \<or> (192 \<le> n \<and> n \<le> 222 \<and> n \<noteq> 215)
         then char_of (n + 32) else c)"

definition toLowerCase :: "string \<Rightarrow> string" where
  "toLowerCase s = map toLowerCaseChar s"

definition isWhiteSpace :: "char \<Rightarrow> bool" where
  "isWhiteSpace c = ((of_char c :: nat) \<in> {9, 10, 11, 12, 13, 32, 160})"

definition trim :: "string \<Rightarrow> string" where
  "trim s = rev (dropWhile isWhiteSpace (rev (dropWhile isWhiteSpace s)))"

fun digitsOf :: "nat \<Rightarrow> string" where
  "digitsOf n = (if n < 10 then [''0123456789'' ! n]
                 else digitsOf (n div 10) @ [''0123456789'' ! (n mod 10)])"

declare digitsOf.simps [simp del]

definition numberToString :: "int \<Rightarrow> string" where
  "numberToString i = (if i < 0 then CHR ''-'' # digitsOf (nat (- i)) else digitsOf (nat i))"

text \<open>\<open>Array.prototype.join\<close> on an array of strings.\<close>

fun join :: "string \<Rightarrow> string list \<Rightarrow> string" where
  "join sep [] = []"
| "join sep [x] = x"
| "join sep (x # y # ys) = x @ sep @ join sep (y # ys)"

text \<open>
  \<open>[...new Set(xs)]\<close>: a set keeps its elements in the order of their first insertion.
\<close>

definition uniq :: "'a list \<Rightarrow> 'a list" where
  "uniq xs = rev (remdups (rev xs))"

text \<open>
  The values a property read of an object literal can produce. A literal inherits from
  \<open>Object.prototype\<close>, so \<open>obj[key]\<close> yields the literal's own entry when there is one
  and the inherited member otherwise: a native function, or, for \<open>__proto__\<close>, the
  prototype object itself. Only a key that is neither own nor inherited reads as
  \<open>undefined\<close> (here \<open>None\<close>).
\<close>

datatype jsvalue =
    JNumber int
  | JString string
  | JFunction string
  | JObjectPrototype

definition objectPrototype :: "string \<rightharpoonup> jsvalue" where
  "objectPrototype = map_of
     [(''constructor'', JFunction ''Object''),
      (''__defineGetter__'', JFunction ''__defineGetter__''),
      (''__defineSetter__'', JFunction ''__defineSetter__''),
      (''hasOwnProperty'', JFunction ''hasOwnProperty''),
      (''__lookupGetter__'', JFunction ''__lookupGetter__''),
      (''__lookupSetter__'', JFunction ''__lookupSetter__''),
      (''isPrototypeOf'', JFunction ''isPrototypeOf''),
      (''propertyIsEnumerable'', JFunction ''propertyIsEnumerable''),
      (''toString'', JFunction ''toString''),
      (''valueOf'', JFunction ''valueOf''),
      (''__proto__'', JObjectPrototype),
      (''toLocaleString'', JFunction ''toLocaleString'')]"

definition getProperty :: "(string \<rightharpoonup> jsvalue) \<Rightarrow> string \<Rightarrow> jsvalue option" where
  "getProperty own key = (case own key of Some v \<Rightarrow> Some v | None \<Rightarrow> objectPrototype key)"

text \<open>
  String conversion of a value, as \<open>+\<close> applies it, and \<open>+\<close> itself: numbers add, and
  as soon as one operand is not a number the two are converted and concatenated.
\<close>

fun toStringValue :: "jsvalue \<Rightarrow> string" where
  "toStringValue (JNumber n) = numberToString n"
| "toStringValue (JString s) = s"
| "toStringValue (JFunction name) = ''function '' @ name @ ''() { [native code] }''"
| "toStringValue JObjectPrototype = ''[object Object]''"

fun jsPlus :: "jsvalue \<Rightarrow> jsvalue \<Rightarrow> jsvalue" where
  "jsPlus (JNumber a) (JNumber b) = JNumber (a + b)"
| "jsPlus a b = JString (toStringValue a @ toStringValue b)"

section \<open>Response value mapper\<close>

text \<open>The own entries of \<open>responseMap\<close>, in the order of the literal.\<close>

definition responseMap :: "string \<rightharpoonup> int" where
  "responseMap = map_of
     [(''quase sempre'', 5),
      (''frequentemente'', 4),
      (''metade do tempo'', 3),
      (''ocasionalmente'', 2),
      (''quase nunca'', 1),
      (''n'' @ [CHR 0xE3] @ ''o se aplica'', 0),
      (''almost always'', 5),
      (''frequently'', 4),
      (''half the time'', 3),
      (''occasionally'', 2),
      (''almost never'', 1),
      (''does not apply'', 0),
      (''always'', 5),
      (''rarely'', 2),
      (''never'', 1)]"

definition invalidResponseMessage :: "string \<Rightarrow> string" where
  "invalidResponseMessage response =
     ''Invalid response value: \"'' @ response @
     ''\". Expected: quase sempre, frequentemente, metade do tempo, ocasionalmente, quase nunca, n''
     @ [CHR 0xE3] @ ''o se aplica''"

text \<open>
  \<open>mapResponseToValue\<close>: \<open>Inl\<close> carries the message of the thrown \<open>Error\<close>. The test
  of the source is \<open>value === undefined\<close> on \<open>responseMap[normalizedResponse]\<close>, a
  property read.
\<close>

definition mapResponseToValue :: "string \<Rightarrow> string + jsvalue" where
  "mapResponseToValue response =
     (let normalizedResponse = trim (toLowerCase response)
      in case getProperty (map_option JNumber \<circ> responseMap) normalizedResponse of
           None \<Rightarrow> Inl (invalidResponseMessage response)
         | Some v \<Rightarrow> Inr v)"

section \<open>Item taxonomy\<close>

datatype sectionKey =
    AuditoryProcessing
  | VisualProcessing
  | TactileProcessing
  | MovementProcessing
  | BodyPositionProcessing
  | OralSensitivityProcessing
  | BehavioralResponses
  | SocialEmotionalResponses
  | AttentionResponses

datatype quadrantKey =
    RegistrationIncreased
  | SensorySeek
  | SensorySensitivity
  | SensoryAvoidance

text \<open>
  The two tables are keyed by integers; no member of \<open>Object.prototype\<close> has such a
  key, so a read of them is a read of the own entries.
\<close>

definition sectionMapEntries :: "(int \<times> sectionKey) list" where
  "sectionMapEntries =
     [(1, AuditoryProcessing), (2, AuditoryProcessing), (3, AuditoryProcessing),
      (4, AuditoryProcessing), (5, AuditoryProcessing), (6, AuditoryProcessing),
      (7, AuditoryProcessing), (8, AuditoryProcessing),
      (9, VisualProcessing), (10, VisualProcessing), (11, VisualProcessing),
      (12, VisualProcessing), (13, VisualProcessing), (14, VisualProcessing),
      (16, TactileProcessing), (17, TactileProcessing), (18, TactileProcessing),
      (19, TactileProcessing), (20, TactileProcessing), (21, TactileProcessing),
      (22, TactileProcessing), (23, TactileProcessing), (24, TactileProcessing),
      (25, TactileProcessing), (26, TactileProcessing),
      (27, MovementProcessing), (28, MovementProcessing), (29, MovementProcessing),
      (30, MovementProcessing), (31, MovementProcessing), (32, MovementProcessing),
      (33, MovementProcessing), (34, MovementProcessing),
      (35, BodyPositionProcessing), (36, BodyPositionProcessing), (37, BodyPositionProcessing),
      (38, BodyPositionProcessing), (39, BodyPositionProcessing), (40, BodyPositionProcessing),
      (41, BodyPositionProcessing), (42, BodyPositionProcessing),
      (43, OralSensitivityProcessing), (44, OralSensitivityProcessing),
      (45, OralSensitivityProcessing), (46, OralSensitivityProcessing),
      (47, OralSensitivityProcessing), (48, OralSensitivityProcessing),
      (49, OralSensitivityProcessing), (50, OralSensitivityProcessing),
      (51, OralSensitivityProcessing), (52, OralSensitivityProcessing),
      (53, BehavioralResponses), (54, BehavioralResponses), (55, BehavioralResponses),
      (56, BehavioralResponses), (57, BehavioralResponses), (58, BehavioralResponses),
      (59, BehavioralResponses), (60, BehavioralResponses), (61, BehavioralResponses),
      (62, SocialEmotionalResponses), (63, SocialEmotionalResponses),
      (64, SocialEmotionalResponses), (65, SocialEmotionalResponses),
      (66, SocialEmotionalResponses), (67, SocialEmotionalResponses),
      (68, SocialEmotionalResponses), (69, SocialEmotionalResponses),
      (70, SocialEmotionalResponses), (71, SocialEmotionalResponses),
      (72, SocialEmotionalResponses), (73, SocialEmotionalResponses),
      (74, SocialEmotionalResponses), (75, SocialEmotionalResponses),
      (76, AttentionResponses), (77, AttentionResponses), (78, AttentionResponses),
      (79, AttentionResponses), (80, AttentionResponses), (81, AttentionResponses),
      (82, AttentionResponses), (83, AttentionResponses), (84, AttentionResponses),
      (85, AttentionResponses)]"

definition sectionMap :: "int \<rightharpoonup> sectionKey" where
  "sectionMap = map_of sectionMapEntries"

definition quadrantMapEntries :: "(int \<times> quadrantKey) list" where
  "quadrantMapEntries =
     [(14, SensorySeek), (21, SensorySeek), (22, SensorySeek), (25, SensorySeek),
      (27, SensorySeek), (28, SensorySeek), (30, SensorySeek), (31, SensorySeek),
      (32, SensorySeek), (41, SensorySeek), (48, SensorySeek), (49, SensorySeek),
      (50, SensorySeek), (51, SensorySeek), (55, SensorySeek), (56, SensorySeek),
      (60, SensorySeek), (82, SensorySeek), (83, SensorySeek),
      (1, SensoryAvoidance), (2, SensoryAvoidance), (5, SensoryAvoidance),
      (15, SensoryAvoidance), (18, SensoryAvoidance), (58, SensoryAvoidance),
      (59, SensoryAvoidance), (61, SensoryAvoidance), (63, SensoryAvoidance),
      (64, SensoryAvoidance), (65, SensoryAvoidance), (66, SensoryAvoidance),
      (67, SensoryAvoidance), (68, SensoryAvoidance), (70, SensoryAvoidance),
      (71, SensoryAvoidance), (72, SensoryAvoidance), (74, SensoryAvoidance),
      (75, SensoryAvoidance), (81, SensoryAvoidance),
      (3, SensorySensitivity), (6, SensorySensitivity), (9, SensorySensitivity),
      (13, SensorySensitivity), (16, SensorySensitivity), (19, SensorySensitivity),
      (20, SensorySensitivity), (44, SensorySensitivity), (45, SensorySensitivity),
      (46, SensorySensitivity), (47, SensorySensitivity), (52, SensorySensitivity),
      (69, SensorySensitivity), (73, SensorySensitivity), (77, SensorySensitivity),
      (78, SensorySensitivity), (84, SensorySensitivity),
      (8, RegistrationIncreased), (12, RegistrationIncreased), (23, RegistrationIncreased),
      (24, RegistrationIncreased), (26, RegistrationIncreased), (33, RegistrationIncreased),
      (34, RegistrationIncreased), (35, RegistrationIncreased), (36, RegistrationIncreased),
      (37, RegistrationIncreased), (38, RegistrationIncreased), (39, RegistrationIncreased),
      (40, RegistrationIncreased), (53, RegistrationIncreased), (54, RegistrationIncreased),
      (57, RegistrationIncreased), (62, RegistrationIncreased), (76, RegistrationIncreased),
      (79, RegistrationIncreased), (80, RegistrationIncreased), (85, RegistrationIncreased),
      (86, RegistrationIncreased)]"

definition quadrantMap :: "int \<rightharpoonup> quadrantKey" where
  "quadrantMap = map_of quadrantMapEntries"

text \<open>On an integer id the test \<open>Number.isInteger\<close> of the source holds.\<close>

definition validateItemId :: "int \<Rightarrow> bool" where
  "validateItemId itemId = (itemId \<ge> 1 \<and> itemId \<le> 86)"

definition isExcludedFromScoring :: "int \<Rightarrow> bool" where
  "isExcludedFromScoring itemId = (itemId = 15 \<or> itemId = 86)"

section \<open>Score calculators\<close>

record RawResponse =
  itemId :: int
  response :: string

record 'n SectionScores =
  auditoryProcessing :: 'n
  visualProcessing :: 'n
  tactileProcessing :: 'n
  movementProcessing :: 'n
  bodyPositionProcessing :: 'n
  oralSensitivityProcessing :: 'n
  behavioralResponses :: 'n
  socialEmotionalResponses :: 'n
  attentionResponses :: 'n

record 'n QuadrantScores =
  registrationIncreased :: 'n
  sensorySeek :: 'n
  sensorySensitivity :: 'n
  sensoryAvoidance :: 'n

text \<open>
  The score fields are declared \<open>number\<close>. The calculators accumulate with \<open>+=\<close> on
  whatever the mapper returned, so their accumulators hold values of the language; the
  range validator is modelled on the declared type, with integer fields.
\<close>

text \<open>\<open>scores[section] += value\<close> and \<open>scores[quadrant] += value\<close>.\<close>

fun addToSection :: "sectionKey \<Rightarrow> jsvalue \<Rightarrow> jsvalue SectionScores \<Rightarrow> jsvalue SectionScores" where
  "addToSection AuditoryProcessing v s = s\<lparr>auditoryProcessing := jsPlus (auditoryProcessing s) v\<rparr>"
| "addToSection VisualProcessing v s = s\<lparr>visualProcessing := jsPlus (visualProcessing s) v\<rparr>"
| "addToSection TactileProcessing v s = s\<lparr>tactileProcessing := jsPlus (tactileProcessing s) v\<rparr>"
| "addToSection MovementProcessing v s = s\<lparr>movementProcessing := jsPlus (movementProcessing s) v\<rparr>"
| "addToSection BodyPositionProcessing v s =
     s\<lparr>bodyPositionProcessing := jsPlus (bodyPositionProcessing s) v\<rparr>"
| "addToSection OralSensitivityProcessing v s =
     s\<lparr>oralSensitivityProcessing := jsPlus (oralSensitivityProcessing s) v\<rparr>"
| "addToSection BehavioralResponses v s =
     s\<lparr>behavioralResponses := jsPlus (behavioralResponses s) v\<rparr>"
| "addToSection SocialEmotionalResponses v s =
     s\<lparr>socialEmotionalResponses := jsPlus (socialEmotionalResponses s) v\<rparr>"
| "addToSection AttentionResponses v s =
     s\<lparr>attentionResponses := jsPlus (attentionResponses s) v\<rparr>"

fun addToQuadrant :: "quadrantKey \<Rightarrow> jsvalue \<Rightarrow> jsvalue QuadrantScores \<Rightarrow> jsvalue QuadrantScores" where
  "addToQuadrant RegistrationIncreased v q =
     q\<lparr>registrationIncreased := jsPlus (registrationIncreased q) v\<rparr>"
| "addToQuadrant SensorySeek v q = q\<lparr>sensorySeek := jsPlus (sensorySeek q) v\<rparr>"
| "addToQuadrant SensorySensitivity v q =
     q\<lparr>sensorySensitivity := jsPlus (sensorySensitivity q) v\<rparr>"
| "addToQuadrant SensoryAvoidance v q = q\<lparr>sensoryAvoidance := jsPlus (sensoryAvoidance q) v\<rparr>"

definition zeroSectionScores :: "jsvalue SectionScores" where
  "zeroSectionScores =
     \<lparr>auditoryProcessing = JNumber 0, visualProcessing = JNumber 0,
      tactileProcessing = JNumber 0, movementProcessing = JNumber 0,
      bodyPositionProcessing = JNumber 0, oralSensitivityProcessing = JNumber 0,
      behavioralResponses = JNumber 0, socialEmotionalResponses = JNumber 0,
      attentionResponses = JNumber 0\<rparr>"

definition zeroQuadrantScores :: "jsvalue QuadrantScores" where
  "zeroQuadrantScores =
     \<lparr>registrationIncreased = JNumber 0, sensorySeek = JNumber 0,
      sensorySensitivity = JNumber 0, sensoryAvoidance = JNumber 0\<rparr>"

text \<open>
  The body of the \<open>forEach\<close> of \<open>calculateSectionScores\<close>, on the pair of the two
  mutable locals \<open>scores\<close> and \<open>invalidResponses\<close>. The \<open>catch\<close> receives the
  \<open>Error\<close> of the mapper, the only statement of the \<open>try\<close> that throws.
\<close>

definition sectionStep ::
  "RawResponse \<Rightarrow> jsvalue SectionScores \<times> string list \<Rightarrow> jsvalue SectionScores \<times> string list" where
  "sectionStep r st =
     (let (scores, invalidResponses) = st in
      if \<not> validateItemId (itemId r)
      then (scores, invalidResponses @ [''Invalid item ID: '' @ numberToString (itemId r)])
      else if isExcludedFromScoring (itemId r) then (scores, invalidResponses)
      else case mapResponseToValue (response r) of
             Inl message \<Rightarrow>
               (scores, invalidResponses @
                  [''Item '' @ numberToString (itemId r) @ '': '' @ message])
           | Inr v \<Rightarrow>
               if v = JNumber 0 then (scores, invalidResponses)
               else (case sectionMap (itemId r) of
                       Some sec \<Rightarrow> (addToSection sec v scores, invalidResponses)
                     | None \<Rightarrow>
                         (scores, invalidResponses @
                            [''No section mapping for item '' @ numberToString (itemId r)])))"

definition calculateSectionScores ::
  "RawResponse list \<Rightarrow> jsvalue SectionScores \<times> string list" where
  "calculateSectionScores responses = fold sectionStep responses (zeroSectionScores, [])"

definition quadrantStep ::
  "RawResponse \<Rightarrow> jsvalue QuadrantScores \<times> string list \<Rightarrow> jsvalue QuadrantScores \<times> string list" where
  "quadrantStep r st =
     (let (scores, invalidResponses) = st in
      if \<not> validateItemId (itemId r)
      then (scores, invalidResponses @ [''Invalid item ID: '' @ numberToString (itemId r)])
      else case mapResponseToValue (response r) of
             Inl message \<Rightarrow>
               (scores, invalidResponses @
                  [''Item '' @ numberToString (itemId r) @ '': '' @ message])
           | Inr v \<Rightarrow>
               (case quadrantMap (itemId r) of
                  Some quad \<Rightarrow> (addToQuadrant quad v scores, invalidResponses)
                | None \<Rightarrow> (scores, invalidResponses)))"

definition calculateQuadrantScores ::
  "RawResponse list \<Rightarrow> jsvalue QuadrantScores \<times> string list" where
  "calculateQuadrantScores responses = fold quadrantStep responses (zeroQuadrantScores, [])"

record 'n AssessmentResults =
  sectionScores :: "'n SectionScores"
  quadrantScores :: "'n QuadrantScores"
  totalItems :: int
  validResponses :: int
  invalidResponses :: "string list"

definition calculateScores :: "RawResponse list \<Rightarrow> jsvalue AssessmentResults" where
  "calculateScores responses =
     (let sectionResult = calculateSectionScores responses;
          quadrantResult = calculateQuadrantScores responses;
          allInvalidResponses = uniq (snd sectionResult @ snd quadrantResult)
      in \<lparr>sectionScores = fst sectionResult,
          quadrantScores = fst quadrantResult,
          totalItems = int (length responses),
          validResponses = int (length responses) - int (length allInvalidResponses),
          invalidResponses = allInvalidResponses\<rparr>)"

section \<open>Score range validator\<close>








section \<open>Consistency validator\<close>

record ConsistencyCheckResult =
  isValid :: bool
  errors :: "string list"
  warnings :: "string list"
  checkedFields :: "string list"

text \<open>
  One entry of the local table \<open>sectionItemCounts\<close> of
  \<open>validateResponseCompleteness\<close>: the fields \<open>min\<close>, \<open>max\<close>, \<open>actual\<close> and
  \<open>range\<close> under its key.
\<close>

record SectionItemCount =
  sectionKeyName :: string
  minItem :: int
  maxItem :: int
  actual :: int
  itemRange :: "int \<times> int"

definition sectionItemCounts :: "SectionItemCount list" where
  "sectionItemCounts =
     [\<lparr>sectionKeyName = ''auditoryProcessing'', minItem = 1, maxItem = 8, actual = 0,
       itemRange = (1, 8)\<rparr>,
      \<lparr>sectionKeyName = ''visualProcessing'', minItem = 9, maxItem = 14, actual = 0,
       itemRange = (9, 14)\<rparr>,
      \<lparr>sectionKeyName = ''tactileProcessing'', minItem = 16, maxItem = 26, actual = 0,
       itemRange = (16, 26)\<rparr>,
      \<lparr>sectionKeyName = ''movementProcessing'', minItem = 27, maxItem = 34, actual = 0,
       itemRange = (27, 34)\<rparr>,
      \<lparr>sectionKeyName = ''bodyPositionProcessing'', minItem = 35, maxItem = 42, actual = 0,
       itemRange = (35, 42)\<rparr>,
      \<lparr>sectionKeyName = ''oralSensitivityProcessing'', minItem = 43, maxItem = 52, actual = 0,
       itemRange = (43, 52)\<rparr>,
      \<lparr>sectionKeyName = ''behavioralResponses'', minItem = 53, maxItem = 61, actual = 0,
       itemRange = (53, 61)\<rparr>,
      \<lparr>sectionKeyName = ''socialEmotionalResponses'', minItem = 62, maxItem = 75, actual = 0,
       itemRange = (62, 75)\<rparr>,
      \<lparr>sectionKeyName = ''attentionResponses'', minItem = 76, maxItem = 85, actual = 0,
       itemRange = (76, 85)\<rparr>]"

text \<open>The counting loop: each response bumps \<open>actual\<close> of every entry whose range holds its id.\<close>

definition countResponse :: "int \<Rightarrow> SectionItemCount list \<Rightarrow> SectionItemCount list" where
  "countResponse anItemId infos =
     map (\<lambda>info. if anItemId \<ge> fst (itemRange info) \<and> anItemId \<le> snd (itemRange info)
                  then info\<lparr>actual := actual info + 1\<rparr> else info) infos"

definition countResponses :: "int list \<Rightarrow> SectionItemCount list" where
  "countResponses itemIds = fold countResponse itemIds sectionItemCounts"

text \<open>
  \<open>completionPercentage = (actual / expectedCount) * 100\<close> is a double in the source. For
  the nine item counts of the table (6, 8, 9, 10, 11, 14) the exact quotient is 75 only
  at 6 of 8, where the double is exact too, and it never lies halfway between two
  one-decimal numbers; so the test \<open>< 75\<close> and \<open>toFixed(1)\<close> are computed here on the
  exact quotient, the latter by rounding the number of tenths to the nearest integer.
\<close>

definition belowThreshold :: "int \<Rightarrow> int \<Rightarrow> bool" where
  "belowThreshold actualCount expectedCount = (actualCount * 100 < 75 * expectedCount)"

definition toFixed1 :: "int \<Rightarrow> int \<Rightarrow> string" where
  "toFixed1 actualCount expectedCount =
     (let tenths = (2000 * actualCount + expectedCount) div (2 * expectedCount)
      in numberToString (tenths div 10) @ ''.'' @ numberToString (tenths mod 10))"

definition sectionCheck :: "SectionItemCount \<Rightarrow> ConsistencyCheckResult \<Rightarrow> ConsistencyCheckResult" where
  "sectionCheck info result =
     (let expectedCount = maxItem info - minItem info + 1 in
      if actual info = 0
      then result\<lparr>errors := errors result @
                      [''No responses found for '' @ sectionKeyName info @ '' section''],
                  isValid := False\<rparr>
      else if belowThreshold (actual info) expectedCount
      then result\<lparr>warnings := warnings result @
                      [sectionKeyName info @ '' section is '' @
                       toFixed1 (actual info) expectedCount @ ''% complete ('' @
                       numberToString (actual info) @ ''/'' @ numberToString expectedCount @
                       '' items)'']\<rparr>
      else result)"

text \<open>\<open>Array.prototype.indexOf\<close>: the first index of an element, \<open>-1\<close> when absent.\<close>

fun indexOf :: "int list \<Rightarrow> int \<Rightarrow> int" where
  "indexOf [] x = -1"
| "indexOf (y # ys) x = (if y = x then 0 else (let i = indexOf ys x in if i < 0 then -1 else i + 1))"

definition duplicateCheck :: "int list \<Rightarrow> ConsistencyCheckResult \<Rightarrow> ConsistencyCheckResult" where
  "duplicateCheck itemIds result =
     (if length (uniq itemIds) \<noteq> length itemIds
      then (let duplicates =
                  map fst (filter (\<lambda>(anId, index). indexOf itemIds anId \<noteq> int index)
                                  (zip itemIds [0..<length itemIds]))
            in result\<lparr>errors := errors result @
                          [''Duplicate responses found for items: '' @
                           join '', '' (map numberToString (uniq duplicates))],
                        isValid := False\<rparr>)
      else result)"

definition invalidIdCheck :: "int list \<Rightarrow> ConsistencyCheckResult \<Rightarrow> ConsistencyCheckResult" where
  "invalidIdCheck itemIds result =
     (let invalidIds = filter (\<lambda>anId. anId < 1 \<or> anId > 86) itemIds
      in if length invalidIds > 0
         then result\<lparr>errors := errors result @
                         [''Invalid item IDs found: '' @ join '', '' (map numberToString invalidIds)],
                     isValid := False\<rparr>
         else result)"

text \<open>
  \<open>validateResponseCompleteness\<close>. Only the item id of a response is read. No statement
  of the \<open>try\<close> block throws, so the \<open>catch\<close> has no branch here.
\<close>

definition validateResponseCompleteness :: "RawResponse list \<Rightarrow> ConsistencyCheckResult" where
  "validateResponseCompleteness responses =
     (let result0 = \<lparr>isValid = True, errors = [], warnings = [], checkedFields = [''responses'']\<rparr>;
          counted = countResponses (map itemId responses);
          result1 = fold sectionCheck counted result0;
          itemIds = map itemId responses;
          result2 = duplicateCheck itemIds result1
      in invalidIdCheck itemIds result2)"

text \<open>
  \<open>throwIfInvalid\<close>. \<open>Inl\<close> is the \<open>DataConsistencyError\<close> thrown; \<open>Inr\<close> is the
  normal return, with the entries handed to \<open>logger.warn\<close>. The optional \<open>context\<close> is
  \<open>None\<close> when the argument is left out; the test \<open>context ? ... : ''\<close> is on the
  truth value of the string, and the empty string counts as false.
\<close>

record DataConsistencyError =
  message :: string
  inconsistentField :: string
  expectedValue :: "string list"
  actualValue :: "string list"

definition throwIfInvalid ::
  "ConsistencyCheckResult \<Rightarrow> string option \<Rightarrow>
     DataConsistencyError + (string \<times> string option \<times> string list) list" where
  "throwIfInvalid validationResult context =
     (if \<not> isValid validationResult
      then (let contextPrefix =
                  (case context of
                     Some c \<Rightarrow> if c \<noteq> [] then c @ '': '' else []
                   | None \<Rightarrow> [])
            in Inl \<lparr>message = contextPrefix @ join ''; '' (errors validationResult),
                    inconsistentField = ''multiple_fields'',
                    expectedValue = errors validationResult,
                    actualValue = warnings validationResult\<rparr>)
      else Inr (if length (warnings validationResult) > 0
                then [(''Data consistency warnings detected'', context,
                       warnings validationResult)]
                else []))"

section \<open>Notions used to state the properties\<close>




text \<open>The number of responses whose item id lies between two bounds.\<close>

definition responsesInRange :: "int \<Rightarrow> int \<Rightarrow> RawResponse list \<Rightarrow> int" where
  "responsesInRange lo hi responses =
     int (length (filter (\<lambda>r. lo \<le> itemId r \<and> itemId r \<le> hi) responses))"

section \<open>Properties of the taxonomy and of the mapper\<close>

lemma sectionMap_defined_iff:
  "(sectionMap i \<noteq> None) = (1 \<le> i \<and> i \<le> 86 \<and> i \<noteq> 15 \<and> i \<noteq> 86)"
proof -
  have "(sectionMap i \<noteq> None) = (i \<in> fst ` set sectionMapEntries)"
    unfolding sectionMap_def by (simp add: map_of_eq_None_iff)
  also have "\<dots> = (1 \<le> i \<and> i \<le> 86 \<and> i \<noteq> 15 \<and> i \<noteq> 86)"
    unfolding sectionMapEntries_def
    by (simp only: list.set image_insert fst_conv image_empty insert_iff empty_iff) presburger
  finally show ?thesis .
qed

lemma sectionMap_keys_distinct: "distinct (map fst sectionMapEntries)"
  unfolding sectionMapEntries_def by simp

lemma quadrantMap_15: "quadrantMap 15 = Some SensoryAvoidance"
  unfolding quadrantMap_def quadrantMapEntries_def by simp

lemma quadrantMap_86: "quadrantMap 86 = Some RegistrationIncreased"
  unfolding quadrantMap_def quadrantMapEntries_def by simp

text \<open>
  C2, as the code has it: the section table holds exactly one entry for each id from 1 to
  86 other than 15 and 86, and none for any other integer; the two items excluded from
  scoring have no section entry.
\<close>

theorem sectionMap_covers_scoring_items:
  "(sectionMap i \<noteq> None) = (1 \<le> i \<and> i \<le> 86 \<and> i \<noteq> 15 \<and> i \<noteq> 86)
   \<and> distinct (map fst sectionMapEntries)"
  using sectionMap_defined_iff [of i] sectionMap_keys_distinct by simp

text \<open>C2, as stated, fails at item 15: the section table has no entry for it.\<close>

theorem sectionMap_has_no_entry_for_15: "sectionMap 15 = None"
  using sectionMap_defined_iff [of 15] by simp

text \<open>
  The mapper on the two kinds of label it was written for: a label whose normal form is an
  own key of the table yields that key's number, between 0 and 5; a label whose normal
  form is neither an own key nor a member of \<open>Object.prototype\<close> is rejected with a
  message that holds the label as it was given.
\<close>

lemma mapResponseToValue_recognized:
  assumes "responseMap (trim (toLowerCase label)) = Some v"
  shows "mapResponseToValue label = Inr (JNumber v)"
  using assms by (simp add: mapResponseToValue_def getProperty_def)

lemma responseMap_values:
  assumes "responseMap key = Some v"
  shows "0 \<le> v \<and> v \<le> 5"
  using assms unfolding responseMap_def by (auto split: if_splits)

lemma mapResponseToValue_rejected:
  assumes "responseMap (trim (toLowerCase label)) = None"
      and "objectPrototype (trim (toLowerCase label)) = None"
  shows "mapResponseToValue label = Inl (invalidResponseMessage label)"
  using assms by (simp add: mapResponseToValue_def getProperty_def)

lemma invalidResponseMessage_verbatim:
  "\<exists>before after. invalidResponseMessage label = before @ label @ after"
  unfolding invalidResponseMessage_def by blast

text \<open>
  A normal form holds no capital letter, so the only members of \<open>Object.prototype\<close>
  that a normal form can name are \<open>constructor\<close> and \<open>__proto__\<close>: on every other
  unrecognized label the mapper fails.
\<close>

lemma toLowerCaseChar_not_capital:
  "\<not> (65 \<le> (of_char (toLowerCaseChar c) :: nat) \<and> (of_char (toLowerCaseChar c) :: nat) \<le> 90)"
proof -
  have "(of_char (char_of (n + 32)) :: nat) = n + 32" if "n \<le> 222" for n :: nat
    using that by simp
  then show ?thesis
    by (auto simp: toLowerCaseChar_def Let_def)
qed

lemma normalized_has_no_capital:
  assumes "c \<in> set (trim (toLowerCase s))"
  shows "\<not> (65 \<le> (of_char c :: nat) \<and> (of_char c :: nat) \<le> 90)"
proof -
  have "set (trim (toLowerCase s)) \<subseteq> set (toLowerCase s)"
  proof
    fix x assume "x \<in> set (trim (toLowerCase s))"
    then have "x \<in> set (dropWhile isWhiteSpace (rev (dropWhile isWhiteSpace (toLowerCase s))))"
      by (simp add: trim_def)
    then have "x \<in> set (rev (dropWhile isWhiteSpace (toLowerCase s)))"
      by (rule set_dropWhileD)
    then have "x \<in> set (dropWhile isWhiteSpace (toLowerCase s))"
      by simp
    then show "x \<in> set (toLowerCase s)"
      by (rule set_dropWhileD)
  qed
  with assms obtain d where "c = toLowerCaseChar d"
    by (auto simp: toLowerCase_def)
  then show ?thesis using toLowerCaseChar_not_capital by simp
qed

lemma objectPrototype_on_normalized:
  "objectPrototype (trim (toLowerCase s)) =
     (if trim (toLowerCase s) = ''constructor'' then Some (JFunction ''Object'')
      else if trim (toLowerCase s) = ''__proto__'' then Some JObjectPrototype
      else None)"
proof -
  let ?n = "trim (toLowerCase s)"
  have "?n \<noteq> k" if "c \<in> set k" and "65 \<le> (of_char c :: nat) \<and> (of_char c :: nat) \<le> 90"
    for k c
    using that normalized_has_no_capital [of c s] by auto
  from this [of "CHR ''G''" "''__defineGetter__''"] this [of "CHR ''S''" "''__defineSetter__''"]
       this [of "CHR ''O''" "''hasOwnProperty''"] this [of "CHR ''G''" "''__lookupGetter__''"]
       this [of "CHR ''S''" "''__lookupSetter__''"] this [of "CHR ''P''" "''isPrototypeOf''"]
       this [of "CHR ''I''" "''propertyIsEnumerable''"] this [of "CHR ''S''" "''toString''"]
       this [of "CHR ''O''" "''valueOf''"] this [of "CHR ''L''" "''toLocaleString''"]
  have "?n \<noteq> ''__defineGetter__''" "?n \<noteq> ''__defineSetter__''" "?n \<noteq> ''hasOwnProperty''"
       "?n \<noteq> ''__lookupGetter__''" "?n \<noteq> ''__lookupSetter__''" "?n \<noteq> ''isPrototypeOf''"
       "?n \<noteq> ''propertyIsEnumerable''" "?n \<noteq> ''toString''" "?n \<noteq> ''valueOf''"
       "?n \<noteq> ''toLocaleString''"
    by simp_all
  then show ?thesis
    unfolding objectPrototype_def by simp
qed

lemma mapResponseToValue_unrecognized:
  assumes "responseMap (trim (toLowerCase label)) = None"
      and "trim (toLowerCase label) \<noteq> ''constructor''"
      and "trim (toLowerCase label) \<noteq> ''__proto__''"
  shows "mapResponseToValue label = Inl (invalidResponseMessage label)"
  using assms by (simp add: mapResponseToValue_rejected objectPrototype_on_normalized)

text \<open>
  C3 at the label \<open>constructor\<close>: it is not among the recognized labels, yet the mapper
  does not fail on it; the property read finds the inherited member and the mapper returns
  it as the value.
\<close>

theorem mapResponseToValue_accepts_inherited_key:
  "responseMap (trim (toLowerCase ''constructor'')) = None
   \<and> mapResponseToValue ''constructor'' = Inr (JFunction ''Object'')"
  by code_simp

section \<open>Properties of the calculators\<close>

lemma sectionStep_excluded:
  assumes "isExcludedFromScoring (itemId r)"
  shows "sectionStep r st = st"
  using assms
  by (cases st) (auto simp: sectionStep_def isExcludedFromScoring_def validateItemId_def)

text \<open>
  Appending a response to the list runs the loop body once more on the state that the
  list before it has produced.
\<close>

lemma calculateSectionScores_snoc:
  "calculateSectionScores (rs @ [r]) = sectionStep r (calculateSectionScores rs)"
  by (simp add: calculateSectionScores_def)

lemma calculateQuadrantScores_snoc:
  "calculateQuadrantScores (rs @ [r]) = quadrantStep r (calculateQuadrantScores rs)"
  by (simp add: calculateQuadrantScores_def)

lemma calculateSectionScores_skips_excluded:
  assumes "isExcludedFromScoring (itemId r)"
  shows "calculateSectionScores (before @ r # after) = calculateSectionScores (before @ after)"
  using assms by (simp add: calculateSectionScores_def sectionStep_excluded)

lemma quadrantStep_recognized:
  assumes "validateItemId (itemId r)"
      and "mapResponseToValue (response r) = Inr value"
      and "quadrantMap (itemId r) = Some quad"
  shows "quadrantStep r (scores, msgs) = (addToQuadrant quad value scores, msgs)"
  using assms by (simp add: quadrantStep_def)

text \<open>
  C4: for a recognized label of value \<open>v\<close> between 1 and 5, a response to item 15 or to
  item 86 contributes 0 to every section score: alone it leaves all nine at 0, the loop
  body leaves any scores and messages as they are, and taking the response out of any
  list changes nothing in the result of \<open>calculateSectionScores\<close>. The response to item
  15 contributes exactly \<open>v\<close> to the quadrant \<open>sensoryAvoidance\<close> and 0 to the other
  three: alone it gives \<open>v\<close> and three zeros, and on a running total \<open>n\<close> the loop body
  gives \<open>n + v\<close> and leaves the other three quadrants and the messages as they are,
  also at the end of any list of responses.
\<close>

theorem excluded_items_score_zero_in_sections:
  assumes "responseMap (trim (toLowerCase label)) = Some v" and "1 \<le> v" and "v \<le> 5"
  shows "fst (calculateSectionScores [\<lparr>itemId = 15, response = label\<rparr>]) = zeroSectionScores
       \<and> fst (calculateSectionScores [\<lparr>itemId = 86, response = label\<rparr>]) = zeroSectionScores
       \<and> fst (calculateQuadrantScores [\<lparr>itemId = 15, response = label\<rparr>]) =
           \<lparr>registrationIncreased = JNumber 0, sensorySeek = JNumber 0,
            sensorySensitivity = JNumber 0, sensoryAvoidance = JNumber v\<rparr>
       \<and> sectionStep \<lparr>itemId = 15, response = label\<rparr> st = st
       \<and> sectionStep \<lparr>itemId = 86, response = label\<rparr> st = st
       \<and> calculateSectionScores (before @ \<lparr>itemId = 15, response = label\<rparr> # after) =
           calculateSectionScores (before @ after)
       \<and> calculateSectionScores (before @ \<lparr>itemId = 86, response = label\<rparr> # after) =
           calculateSectionScores (before @ after)
       \<and> quadrantStep \<lparr>itemId = 15, response = label\<rparr>
            (\<lparr>registrationIncreased = ra, sensorySeek = bs, sensorySensitivity = ss,
              sensoryAvoidance = JNumber n\<rparr>, msgs) =
           (\<lparr>registrationIncreased = ra, sensorySeek = bs, sensorySensitivity = ss,
             sensoryAvoidance = JNumber (n + v)\<rparr>, msgs)
       \<and> (sensoryAvoidance (fst (calculateQuadrantScores rs)) = JNumber m \<longrightarrow>
            calculateQuadrantScores (rs @ [\<lparr>itemId = 15, response = label\<rparr>]) =
              ((fst (calculateQuadrantScores rs))\<lparr>sensoryAvoidance := JNumber (m + v)\<rparr>,
               snd (calculateQuadrantScores rs)))"
proof -
  let ?r15 = "\<lparr>itemId = 15, response = label\<rparr>"
  let ?r86 = "\<lparr>itemId = 86, response = label\<rparr>"
  have m: "mapResponseToValue label = Inr (JNumber v)"
    using assms(1) by (rule mapResponseToValue_recognized)
  have e15: "isExcludedFromScoring (itemId ?r15)" and e86: "isExcludedFromScoring (itemId ?r86)"
    by (simp_all add: isExcludedFromScoring_def)
  have step: "quadrantStep ?r15 (scores, msgs0) = (addToQuadrant SensoryAvoidance (JNumber v) scores, msgs0)"
    for scores msgs0
    by (rule quadrantStep_recognized) (simp_all add: validateItemId_def m quadrantMap_15)
  have s15: "fst (calculateSectionScores [?r15]) = zeroSectionScores"
    using e15 by (simp add: calculateSectionScores_def sectionStep_excluded)
  have s86: "fst (calculateSectionScores [?r86]) = zeroSectionScores"
    using e86 by (simp add: calculateSectionScores_def sectionStep_excluded)
  have q15: "fst (calculateQuadrantScores [?r15]) =
           \<lparr>registrationIncreased = JNumber 0, sensorySeek = JNumber 0,
            sensorySensitivity = JNumber 0, sensoryAvoidance = JNumber v\<rparr>"
    by (simp add: calculateQuadrantScores_def step zeroQuadrantScores_def)
  have i15: "sectionStep ?r15 st = st" using e15 by (rule sectionStep_excluded)
  have i86: "sectionStep ?r86 st = st" using e86 by (rule sectionStep_excluded)
  have l15: "calculateSectionScores (before @ ?r15 # after) = calculateSectionScores (before @ after)"
    using e15 by (rule calculateSectionScores_skips_excluded)
  have l86: "calculateSectionScores (before @ ?r86 # after) = calculateSectionScores (before @ after)"
    using e86 by (rule calculateSectionScores_skips_excluded)
  have a15: "quadrantStep ?r15
            (\<lparr>registrationIncreased = ra, sensorySeek = bs, sensorySensitivity = ss,
              sensoryAvoidance = JNumber n\<rparr>, msgs) =
           (\<lparr>registrationIncreased = ra, sensorySeek = bs, sensorySensitivity = ss,
             sensoryAvoidance = JNumber (n + v)\<rparr>, msgs)"
    by (simp add: step)
  have t15: "calculateQuadrantScores (rs @ [?r15]) =
              ((fst (calculateQuadrantScores rs))\<lparr>sensoryAvoidance := JNumber (m + v)\<rparr>,
               snd (calculateQuadrantScores rs))"
    if "sensoryAvoidance (fst (calculateQuadrantScores rs)) = JNumber m"
  proof -
    obtain q ms where c: "calculateQuadrantScores rs = (q, ms)"
      by (cases "calculateQuadrantScores rs")
    with that have "sensoryAvoidance q = JNumber m" by simp
    then show ?thesis
      by (simp add: calculateQuadrantScores_snoc c step)
  qed
  from s15 s86 q15 i15 i86 l15 l86 a15 t15 show ?thesis by blast
qed

theorem excluded_items_score_zero_in_sections_witness:
  "responseMap (trim (toLowerCase '' Frequentemente'')) = Some 4
   \<and> fst (calculateSectionScores [\<lparr>itemId = 15, response = '' Frequentemente''\<rparr>]) = zeroSectionScores
   \<and> fst (calculateSectionScores [\<lparr>itemId = 86, response = '' Frequentemente''\<rparr>]) = zeroSectionScores
   \<and> fst (calculateQuadrantScores [\<lparr>itemId = 15, response = '' Frequentemente''\<rparr>]) =
           \<lparr>registrationIncreased = JNumber 0, sensorySeek = JNumber 0,
            sensorySensitivity = JNumber 0, sensoryAvoidance = JNumber 4\<rparr>
   \<and> sensoryAvoidance (fst (calculateQuadrantScores [\<lparr>itemId = 1, response = ''never''\<rparr>])) = JNumber 1
   \<and> calculateQuadrantScores
        [\<lparr>itemId = 1, response = ''never''\<rparr>, \<lparr>itemId = 15, response = '' Frequentemente''\<rparr>] =
       (\<lparr>registrationIncreased = JNumber 0, sensorySeek = JNumber 0,
         sensorySensitivity = JNumber 0, sensoryAvoidance = JNumber 5\<rparr>, [])"
proof -
  have h: "responseMap (trim (toLowerCase '' Frequentemente'')) = Some 4" by code_simp
  have c: "calculateQuadrantScores [\<lparr>itemId = 1, response = ''never''\<rparr>] =
             (\<lparr>registrationIncreased = JNumber 0, sensorySeek = JNumber 0,
               sensorySensitivity = JNumber 0, sensoryAvoidance = JNumber 1\<rparr>, [])"
    by code_simp
  show ?thesis
    using h c
      excluded_items_score_zero_in_sections
        [OF h, where rs = "[\<lparr>itemId = 1, response = ''never''\<rparr>]" and m = 1]
    by simp
qed

text \<open>
  C8: for a recognized label of value \<open>v\<close> between 1 and 5, a response to item 86
  contributes exactly \<open>v\<close> to the quadrant \<open>registrationIncreased\<close> and 0 to the other
  three: alone it gives \<open>v\<close> and three zeros, and on a running total \<open>n\<close> the loop body
  gives \<open>n + v\<close> and leaves the other three quadrants and the messages as they are,
  also at the end of any list of responses. The quadrant table has an entry for item 86,
  which section scoring excludes.
\<close>

theorem item_86_scores_in_registration_quadrant:
  assumes "responseMap (trim (toLowerCase label)) = Some v" and "1 \<le> v" and "v \<le> 5"
  shows "fst (calculateQuadrantScores [\<lparr>itemId = 86, response = label\<rparr>]) =
           \<lparr>registrationIncreased = JNumber v, sensorySeek = JNumber 0,
            sensorySensitivity = JNumber 0, sensoryAvoidance = JNumber 0\<rparr>
       \<and> quadrantMap 86 = Some RegistrationIncreased
       \<and> isExcludedFromScoring 86
       \<and> quadrantStep \<lparr>itemId = 86, response = label\<rparr>
            (\<lparr>registrationIncreased = JNumber n, sensorySeek = bs, sensorySensitivity = ss,
              sensoryAvoidance = es\<rparr>, msgs) =
           (\<lparr>registrationIncreased = JNumber (n + v), sensorySeek = bs, sensorySensitivity = ss,
             sensoryAvoidance = es\<rparr>, msgs)
       \<and> (registrationIncreased (fst (calculateQuadrantScores rs)) = JNumber m \<longrightarrow>
            calculateQuadrantScores (rs @ [\<lparr>itemId = 86, response = label\<rparr>]) =
              ((fst (calculateQuadrantScores rs))\<lparr>registrationIncreased := JNumber (m + v)\<rparr>,
               snd (calculateQuadrantScores rs)))"
proof -
  let ?r86 = "\<lparr>itemId = 86, response = label\<rparr>"
  have m: "mapResponseToValue label = Inr (JNumber v)"
    using assms(1) by (rule mapResponseToValue_recognized)
  have step: "quadrantStep ?r86 (scores, msgs0) =
                (addToQuadrant RegistrationIncreased (JNumber v) scores, msgs0)"
    for scores msgs0
    by (rule quadrantStep_recognized) (simp_all add: validateItemId_def m quadrantMap_86)
  have q86: "fst (calculateQuadrantScores [?r86]) =
           \<lparr>registrationIncreased = JNumber v, sensorySeek = JNumber 0,
            sensorySensitivity = JNumber 0, sensoryAvoidance = JNumber 0\<rparr>"
    by (simp add: calculateQuadrantScores_def step zeroQuadrantScores_def)
  have x86: "isExcludedFromScoring 86" by (simp add: isExcludedFromScoring_def)
  have a86: "quadrantStep ?r86
            (\<lparr>registrationIncreased = JNumber n, sensorySeek = bs, sensorySensitivity = ss,
              sensoryAvoidance = es\<rparr>, msgs) =
           (\<lparr>registrationIncreased = JNumber (n + v), sensorySeek = bs, sensorySensitivity = ss,
             sensoryAvoidance = es\<rparr>, msgs)"
    by (simp add: step)
  have t86: "calculateQuadrantScores (rs @ [?r86]) =
              ((fst (calculateQuadrantScores rs))\<lparr>registrationIncreased := JNumber (m + v)\<rparr>,
               snd (calculateQuadrantScores rs))"
    if "registrationIncreased (fst (calculateQuadrantScores rs)) = JNumber m"
  proof -
    obtain q ms where c: "calculateQuadrantScores rs = (q, ms)"
      by (cases "calculateQuadrantScores rs")
    with that have "registrationIncreased q = JNumber m" by simp
    then show ?thesis
      by (simp add: calculateQuadrantScores_snoc c step)
  qed
  from q86 quadrantMap_86 x86 a86 t86 show ?thesis by blast
qed

theorem item_86_scores_in_registration_quadrant_witness:
  "responseMap (trim (toLowerCase ''RARELY  '')) = Some 2
   \<and> fst (calculateQuadrantScores [\<lparr>itemId = 86, response = ''RARELY  ''\<rparr>]) =
           \<lparr>registrationIncreased = JNumber 2, sensorySeek = JNumber 0,
            sensorySensitivity = JNumber 0, sensoryAvoidance = JNumber 0\<rparr>
   \<and> registrationIncreased (fst (calculateQuadrantScores [\<lparr>itemId = 8, response = ''always''\<rparr>])) =
       JNumber 5
   \<and> calculateQuadrantScores
        [\<lparr>itemId = 8, response = ''always''\<rparr>, \<lparr>itemId = 86, response = ''RARELY  ''\<rparr>] =
       (\<lparr>registrationIncreased = JNumber 7, sensorySeek = JNumber 0,
         sensorySensitivity = JNumber 0, sensoryAvoidance = JNumber 0\<rparr>, [])"
proof -
  have h: "responseMap (trim (toLowerCase ''RARELY  '')) = Some 2" by code_simp
  have c: "calculateQuadrantScores [\<lparr>itemId = 8, response = ''always''\<rparr>] =
             (\<lparr>registrationIncreased = JNumber 5, sensorySeek = JNumber 0,
               sensorySensitivity = JNumber 0, sensoryAvoidance = JNumber 0\<rparr>, [])"
    by code_simp
  show ?thesis
    using h c
      item_86_scores_in_registration_quadrant
        [OF h, where rs = "[\<lparr>itemId = 8, response = ''always''\<rparr>]" and m = 5]
    by simp
qed

lemma sectionMap_defined:
  assumes "validateItemId i" and "\<not> isExcludedFromScoring i"
  shows "\<exists>sec. sectionMap i = Some sec"
  using assms sectionMap_defined_iff [of i]
  by (auto simp: validateItemId_def isExcludedFromScoring_def)

text \<open>
  Every message the section calculator records starts with the letter I: it is either
  \<open>Invalid item ID: ...\<close> or \<open>Item ...\<close>. The third message of the loop body is
  behind a failed section lookup, which a valid, non-excluded id never has.
\<close>

lemma sectionStep_messages:
  assumes "\<forall>m\<in>set (snd st). take 1 m = ''I''"
  shows "\<forall>m\<in>set (snd (sectionStep r st)). take 1 m = ''I''"
proof (cases st)
  case (Pair scores inv)
  show ?thesis
  proof (cases "validateItemId (itemId r) \<and> \<not> isExcludedFromScoring (itemId r)")
    case True
    then have "\<exists>sec. sectionMap (itemId r) = Some sec"
      by (simp add: sectionMap_defined)
    then obtain sec where "sectionMap (itemId r) = Some sec" by blast
    with True assms Pair show ?thesis
      by (auto simp: sectionStep_def split: sum.splits)
  next
    case False
    with assms Pair show ?thesis
      by (auto simp: sectionStep_def)
  qed
qed

lemma fold_sectionStep_messages:
  assumes "\<forall>m\<in>set (snd st). take 1 m = ''I''"
  shows "\<forall>m\<in>set (snd (fold sectionStep rs st)). take 1 m = ''I''"
  using assms
proof (induction rs arbitrary: st)
  case Nil
  then show ?case by simp
next
  case (Cons r rs)
  have "\<forall>m\<in>set (snd (sectionStep r st)). take 1 m = ''I''"
    using Cons.prems by (rule sectionStep_messages)
  then show ?case using Cons.IH by simp
qed

text \<open>
  C5: whatever the responses, the section calculator records no message that starts with
  \<open>No section mapping for item\<close>; and every id that \<open>validateItemId\<close> accepts and
  \<open>isExcludedFromScoring\<close> does not exclude has an entry in the section table.
\<close>

theorem no_section_mapping_message_unreachable:
  "(\<forall>m \<in> set (snd (calculateSectionScores responses)).
      \<not> prefix ''No section mapping for item '' m)
   \<and> (\<forall>i. validateItemId i \<and> \<not> isExcludedFromScoring i \<longrightarrow> sectionMap i \<noteq> None)"
proof
  have "\<forall>m\<in>set (snd (calculateSectionScores responses)). take 1 m = ''I''"
    unfolding calculateSectionScores_def by (rule fold_sectionStep_messages) simp
  then show "\<forall>m \<in> set (snd (calculateSectionScores responses)).
      \<not> prefix ''No section mapping for item '' m"
    by (auto simp: prefix_def)
next
  show "\<forall>i. validateItemId i \<and> \<not> isExcludedFromScoring i \<longrightarrow> sectionMap i \<noteq> None"
    using sectionMap_defined by auto
qed

theorem no_section_mapping_message_unreachable_witness:
  "''Invalid item ID: 99'' \<in> set (snd (calculateSectionScores [\<lparr>itemId = 99, response = ''always''\<rparr>]))
   \<and> \<not> prefix ''No section mapping for item '' ''Invalid item ID: 99''
   \<and> validateItemId 14 \<and> \<not> isExcludedFromScoring 14 \<and> sectionMap 14 \<noteq> None"
proof -
  have h: "''Invalid item ID: 99'' \<in> set (snd (calculateSectionScores [\<lparr>itemId = 99, response = ''always''\<rparr>]))"
    by code_simp
  have v: "validateItemId 14 \<and> \<not> isExcludedFromScoring 14"
    by (simp add: validateItemId_def isExcludedFromScoring_def)
  from no_section_mapping_message_unreachable [of "[\<lparr>itemId = 99, response = ''always''\<rparr>]"] h v
  show ?thesis by blast
qed

text \<open>
  Two responses to the same scored item with the same label, when the mapper rejects the
  label: both calculators record the same message twice, the union keeps it once, and one
  of the two responses is counted as valid.
\<close>

lemma rejected_label_twice_counted_once:
  assumes "validateItemId i" and "\<not> isExcludedFromScoring i"
      and "mapResponseToValue label = Inl msg"
  shows "invalidResponses (calculateScores [\<lparr>itemId = i, response = label\<rparr>,
                                            \<lparr>itemId = i, response = label\<rparr>]) =
           [''Item '' @ numberToString i @ '': '' @ msg]
       \<and> validResponses (calculateScores [\<lparr>itemId = i, response = label\<rparr>,
                                          \<lparr>itemId = i, response = label\<rparr>]) = 1"
  using assms
  by (simp add: calculateScores_def calculateSectionScores_def calculateQuadrantScores_def
        sectionStep_def quadrantStep_def uniq_def Let_def)

text \<open>
  C9 at the label \<open>constructor\<close>, which is not a recognized label: the mapper does not
  reject it, no message is recorded, and both responses are counted as valid.
\<close>

theorem inherited_key_twice_counts_as_valid:
  "validateItemId 1 \<and> \<not> isExcludedFromScoring 1
   \<and> responseMap (trim (toLowerCase ''constructor'')) = None
   \<and> invalidResponses (calculateScores [\<lparr>itemId = 1, response = ''constructor''\<rparr>,
                                          \<lparr>itemId = 1, response = ''constructor''\<rparr>]) = []
   \<and> validResponses (calculateScores [\<lparr>itemId = 1, response = ''constructor''\<rparr>,
                                        \<lparr>itemId = 1, response = ''constructor''\<rparr>]) = 2"
  by code_simp

text \<open>
  A response to an excluded item whose label the mapper rejects: the section calculator
  skips it before mapping and records nothing, the quadrant calculator records one
  message, and the combined result holds that message and counts the response as invalid.
\<close>

lemma rejected_label_on_excluded_item:
  assumes "isExcludedFromScoring i" and "mapResponseToValue label = Inl msg"
  shows "snd (calculateSectionScores [\<lparr>itemId = i, response = label\<rparr>]) = []
       \<and> snd (calculateQuadrantScores [\<lparr>itemId = i, response = label\<rparr>]) =
           [''Item '' @ numberToString i @ '': '' @ msg]
       \<and> invalidResponses (calculateScores [\<lparr>itemId = i, response = label\<rparr>]) =
           [''Item '' @ numberToString i @ '': '' @ msg]
       \<and> validResponses (calculateScores [\<lparr>itemId = i, response = label\<rparr>]) = 0"
proof -
  have v: "validateItemId i"
    using assms(1) by (auto simp: isExcludedFromScoring_def validateItemId_def)
  show ?thesis
    using assms v
    by (simp add: calculateScores_def calculateSectionScores_def calculateQuadrantScores_def
          sectionStep_def quadrantStep_def uniq_def Let_def)
qed

text \<open>
  C10 at item 15 with the label \<open>constructor\<close>, which is not a recognized label: the
  quadrant calculator records no message either, and the response is counted as valid.
\<close>

theorem inherited_key_on_excluded_item_not_reported:
  "isExcludedFromScoring 15
   \<and> responseMap (trim (toLowerCase ''constructor'')) = None
   \<and> snd (calculateSectionScores [\<lparr>itemId = 15, response = ''constructor''\<rparr>]) = []
   \<and> snd (calculateQuadrantScores [\<lparr>itemId = 15, response = ''constructor''\<rparr>]) = []
   \<and> invalidResponses (calculateScores [\<lparr>itemId = 15, response = ''constructor''\<rparr>]) = []
   \<and> validResponses (calculateScores [\<lparr>itemId = 15, response = ''constructor''\<rparr>]) = 1"
  by code_simp

section \<open>Properties of the consistency validator\<close>

text \<open>
  C7, as the code has it: \<open>throwIfInvalid\<close> raises exactly when \<open>isValid\<close> is false; the
  message of the raised error is the error strings joined by \<open>; \<close>, with the context
  and \<open>: \<close> in front when a non-empty context is supplied, and with nothing in front
  when the context is left out or is the empty string; a valid result returns normally,
  whatever its warnings.
\<close>

theorem throwIfInvalid_raises_iff_invalid:
  "((\<exists>e. throwIfInvalid r context = Inl e) = (\<not> isValid r))
   \<and> (\<not> isValid r \<longrightarrow>
        (\<exists>e. throwIfInvalid r context = Inl e
           \<and> message e =
               (case context of
                  None \<Rightarrow> join ''; '' (errors r)
                | Some c \<Rightarrow> if c = [] then join ''; '' (errors r)
                            else c @ '': '' @ join ''; '' (errors r))))
   \<and> (isValid r \<longrightarrow> (\<exists>logged. throwIfInvalid r context = Inr logged))"
  by (auto simp: throwIfInvalid_def split: option.splits)

theorem throwIfInvalid_raises_iff_invalid_witness:
  "\<not> isValid \<lparr>isValid = False, errors = [''a'', ''b''], warnings = [''w''], checkedFields = []\<rparr>
   \<and> (\<exists>e. throwIfInvalid \<lparr>isValid = False, errors = [''a'', ''b''], warnings = [''w''],
                            checkedFields = []\<rparr> (Some ''ctx'') = Inl e
          \<and> message e = ''ctx: a; b'')
   \<and> isValid \<lparr>isValid = True, errors = [], warnings = [''w''], checkedFields = []\<rparr>
   \<and> (\<exists>logged. throwIfInvalid \<lparr>isValid = True, errors = [], warnings = [''w''],
                                 checkedFields = []\<rparr> None = Inr logged)"
  using throwIfInvalid_raises_iff_invalid
          [of "\<lparr>isValid = False, errors = [''a'', ''b''], warnings = [''w''], checkedFields = []\<rparr>"
              "Some ''ctx''"]
        throwIfInvalid_raises_iff_invalid
          [of "\<lparr>isValid = True, errors = [], warnings = [''w''], checkedFields = []\<rparr>" None]
  by simp

text \<open>
  C7, as stated, fails when the supplied context is the empty string: the message is the
  joined errors alone, without the \<open>: \<close> that the context prefix would bring.
\<close>

theorem throwIfInvalid_empty_context_no_prefix:
  "throwIfInvalid \<lparr>isValid = False, errors = [''e''], warnings = [], checkedFields = []\<rparr> (Some '''')
     = Inl \<lparr>message = ''e'', inconsistentField = ''multiple_fields'',
            expectedValue = [''e''], actualValue = []\<rparr>
   \<and> ''e'' \<noteq> '''' @ '': '' @ join ''; '' [''e'']"
  by (simp add: throwIfInvalid_def)

section \<open>Properties of the range validator\<close>









section \<open>Properties of the completeness check\<close>

lemma countResponse_actual:
  "countResponse a infos =
     map (\<lambda>info. info\<lparr>actual := actual info +
            (if fst (itemRange info) \<le> a \<and> a \<le> snd (itemRange info) then 1 else 0)\<rparr>) infos"
  unfolding countResponse_def by (rule map_cong) auto

lemma fold_countResponse:
  "fold countResponse ids infos =
     map (\<lambda>info. info\<lparr>actual := actual info +
            int (length (filter (\<lambda>i. fst (itemRange info) \<le> i \<and> i \<le> snd (itemRange info)) ids))\<rparr>)
         infos"
proof (induction ids arbitrary: infos)
  case Nil
  show ?case by (simp add: map_idI)
next
  case (Cons a ids)
  have "fold countResponse (a # ids) infos = fold countResponse ids (countResponse a infos)"
    by simp
  also have "\<dots> =
     map (\<lambda>info. info\<lparr>actual := actual info +
            int (length (filter (\<lambda>i. fst (itemRange info) \<le> i \<and> i \<le> snd (itemRange info)) ids))\<rparr>)
         (countResponse a infos)"
    by (rule Cons.IH)
  also have "\<dots> =
     map (\<lambda>info. info\<lparr>actual := actual info +
            int (length (filter (\<lambda>i. fst (itemRange info) \<le> i \<and> i \<le> snd (itemRange info))
                           (a # ids)))\<rparr>)
         infos"
    unfolding countResponse_actual map_map by (rule map_cong) auto
  finally show ?case .
qed

lemma countResponses_explicit:
  "countResponses (map itemId responses) =
     [\<lparr>sectionKeyName = ''auditoryProcessing'', minItem = 1, maxItem = 8,
       actual = responsesInRange 1 8 responses, itemRange = (1, 8)\<rparr>,
      \<lparr>sectionKeyName = ''visualProcessing'', minItem = 9, maxItem = 14,
       actual = responsesInRange 9 14 responses, itemRange = (9, 14)\<rparr>,
      \<lparr>sectionKeyName = ''tactileProcessing'', minItem = 16, maxItem = 26,
       actual = responsesInRange 16 26 responses, itemRange = (16, 26)\<rparr>,
      \<lparr>sectionKeyName = ''movementProcessing'', minItem = 27, maxItem = 34,
       actual = responsesInRange 27 34 responses, itemRange = (27, 34)\<rparr>,
      \<lparr>sectionKeyName = ''bodyPositionProcessing'', minItem = 35, maxItem = 42,
       actual = responsesInRange 35 42 responses, itemRange = (35, 42)\<rparr>,
      \<lparr>sectionKeyName = ''oralSensitivityProcessing'', minItem = 43, maxItem = 52,
       actual = responsesInRange 43 52 responses, itemRange = (43, 52)\<rparr>,
      \<lparr>sectionKeyName = ''behavioralResponses'', minItem = 53, maxItem = 61,
       actual = responsesInRange 53 61 responses, itemRange = (53, 61)\<rparr>,
      \<lparr>sectionKeyName = ''socialEmotionalResponses'', minItem = 62, maxItem = 75,
       actual = responsesInRange 62 75 responses, itemRange = (62, 75)\<rparr>,
      \<lparr>sectionKeyName = ''attentionResponses'', minItem = 76, maxItem = 85,
       actual = responsesInRange 76 85 responses, itemRange = (76, 85)\<rparr>]"
  unfolding countResponses_def fold_countResponse sectionItemCounts_def responsesInRange_def
  by (simp add: filter_map comp_def)

lemma responsesInRange_without_excluded:
  assumes "hi < 15 \<or> (15 < lo \<and> hi < 86)"
  shows "responsesInRange lo hi (filter (\<lambda>r. itemId r \<noteq> 15 \<and> itemId r \<noteq> 86) responses) =
         responsesInRange lo hi responses"
proof -
  have "filter (\<lambda>r. lo \<le> itemId r \<and> itemId r \<le> hi)
          (filter (\<lambda>r. itemId r \<noteq> 15 \<and> itemId r \<noteq> 86) responses) =
        filter (\<lambda>r. lo \<le> itemId r \<and> itemId r \<le> hi) responses"
    unfolding filter_filter using assms by (intro filter_cong) auto
  then show ?thesis by (simp add: responsesInRange_def)
qed

lemma sectionCheck_errors_mono: "set (errors res) \<subseteq> set (errors (sectionCheck info res))"
  by (auto simp: sectionCheck_def Let_def)

lemma fold_sectionCheck_errors_mono:
  "set (errors res) \<subseteq> set (errors (fold sectionCheck infos res))"
proof (induction infos arbitrary: res)
  case Nil
  show ?case by simp
next
  case (Cons info infos)
  have "set (errors res) \<subseteq> set (errors (sectionCheck info res))"
    by (rule sectionCheck_errors_mono)
  also have "\<dots> \<subseteq> set (errors (fold sectionCheck infos (sectionCheck info res)))"
    by (rule Cons.IH)
  finally show ?case by simp
qed

lemma fold_sectionCheck_reports_empty_section:
  assumes "info \<in> set infos" and "actual info = 0"
  shows "''No responses found for '' @ sectionKeyName info @ '' section''
           \<in> set (errors (fold sectionCheck infos res))"
  using assms(1)
proof (induction infos arbitrary: res)
  case Nil
  then show ?case by simp
next
  case (Cons x infos)
  show ?case
  proof (cases "x = info")
    case True
    have "''No responses found for '' @ sectionKeyName info @ '' section''
            \<in> set (errors (sectionCheck info res))"
      using assms(2) by (simp add: sectionCheck_def)
    then show ?thesis
      using fold_sectionCheck_errors_mono [of "sectionCheck info res" infos] True by auto
  next
    case False
    with Cons.prems have "info \<in> set infos" by simp
    then show ?thesis using Cons.IH by simp
  qed
qed

lemma duplicateCheck_errors_mono: "set (errors res) \<subseteq> set (errors (duplicateCheck ids res))"
  by (auto simp: duplicateCheck_def Let_def)

lemma invalidIdCheck_errors_mono: "set (errors res) \<subseteq> set (errors (invalidIdCheck ids res))"
  by (auto simp: invalidIdCheck_def Let_def)

lemma empty_visual_section_reported:
  assumes "responsesInRange 9 14 responses = 0"
  shows "''No responses found for visualProcessing section''
           \<in> set (errors (validateResponseCompleteness responses))"
proof -
  let ?info = "\<lparr>sectionKeyName = ''visualProcessing'', minItem = 9, maxItem = 14,
       actual = responsesInRange 9 14 responses, itemRange = (9, 14)\<rparr>"
  let ?r0 = "\<lparr>isValid = True, errors = [], warnings = [], checkedFields = [''responses'']\<rparr>"
  have "?info \<in> set (countResponses (map itemId responses))"
    unfolding countResponses_explicit by simp
  moreover have "actual ?info = 0" using assms by simp
  ultimately have "''No responses found for '' @ sectionKeyName ?info @ '' section''
      \<in> set (errors (fold sectionCheck (countResponses (map itemId responses)) ?r0))"
    by (rule fold_sectionCheck_reports_empty_section)
  then have "''No responses found for visualProcessing section''
      \<in> set (errors (fold sectionCheck (countResponses (map itemId responses)) ?r0))"
    by simp
  then show ?thesis
    unfolding validateResponseCompleteness_def Let_def
    using duplicateCheck_errors_mono invalidIdCheck_errors_mono by blast
qed

text \<open>
  C1, as the code has it: a response counts toward a section when its item id lies in the
  section's range of scoring items, which leaves the two excluded ids out (visual 9 to
  14, attention 76 to 85); responses to item 15 or 86 raise no count; and a list with no
  response in 9 to 14 gets the error \<open>No responses found for visualProcessing section\<close>.
\<close>

theorem completeness_counts_scoring_ranges:
  "map (\<lambda>info. (sectionKeyName info, actual info)) (countResponses (map itemId responses)) =
     [(''auditoryProcessing'', responsesInRange 1 8 responses),
      (''visualProcessing'', responsesInRange 9 14 responses),
      (''tactileProcessing'', responsesInRange 16 26 responses),
      (''movementProcessing'', responsesInRange 27 34 responses),
      (''bodyPositionProcessing'', responsesInRange 35 42 responses),
      (''oralSensitivityProcessing'', responsesInRange 43 52 responses),
      (''behavioralResponses'', responsesInRange 53 61 responses),
      (''socialEmotionalResponses'', responsesInRange 62 75 responses),
      (''attentionResponses'', responsesInRange 76 85 responses)]
   \<and> countResponses (map itemId (filter (\<lambda>r. itemId r \<noteq> 15 \<and> itemId r \<noteq> 86) responses)) =
       countResponses (map itemId responses)
   \<and> (responsesInRange 9 14 responses = 0 \<longrightarrow>
        ''No responses found for visualProcessing section''
          \<in> set (errors (validateResponseCompleteness responses)))"
proof (intro conjI impI)
  show "map (\<lambda>info. (sectionKeyName info, actual info)) (countResponses (map itemId responses)) =
     [(''auditoryProcessing'', responsesInRange 1 8 responses),
      (''visualProcessing'', responsesInRange 9 14 responses),
      (''tactileProcessing'', responsesInRange 16 26 responses),
      (''movementProcessing'', responsesInRange 27 34 responses),
      (''bodyPositionProcessing'', responsesInRange 35 42 responses),
      (''oralSensitivityProcessing'', responsesInRange 43 52 responses),
      (''behavioralResponses'', responsesInRange 53 61 responses),
      (''socialEmotionalResponses'', responsesInRange 62 75 responses),
      (''attentionResponses'', responsesInRange 76 85 responses)]"
    unfolding countResponses_explicit by simp
next
  show "countResponses (map itemId (filter (\<lambda>r. itemId r \<noteq> 15 \<and> itemId r \<noteq> 86) responses)) =
       countResponses (map itemId responses)"
    unfolding countResponses_explicit by (simp add: responsesInRange_without_excluded)
next
  assume "responsesInRange 9 14 responses = 0"
  then show "''No responses found for visualProcessing section''
          \<in> set (errors (validateResponseCompleteness responses))"
    by (rule empty_visual_section_reported)
qed

theorem completeness_counts_scoring_ranges_witness:
  "responsesInRange 9 14 [\<lparr>itemId = 15, response = ''always''\<rparr>, \<lparr>itemId = 86, response = ''never''\<rparr>,
                          \<lparr>itemId = 3, response = ''never''\<rparr>] = 0
   \<and> ''No responses found for visualProcessing section''
        \<in> set (errors (validateResponseCompleteness
             [\<lparr>itemId = 15, response = ''always''\<rparr>, \<lparr>itemId = 86, response = ''never''\<rparr>,
              \<lparr>itemId = 3, response = ''never''\<rparr>]))"
  using completeness_counts_scoring_ranges
          [of "[\<lparr>itemId = 15, response = ''always''\<rparr>, \<lparr>itemId = 86, response = ''never''\<rparr>,
                \<lparr>itemId = 3, response = ''never''\<rparr>]"]
  by (simp add: responsesInRange_def)

text \<open>
  C1, as stated, fails on the list that holds only a response to item 15: the result does
  contain the error for the visual section.
\<close>

theorem item_15_not_counted_for_visualProcessing:
  "''No responses found for visualProcessing section''
     \<in> set (errors (validateResponseCompleteness [\<lparr>itemId = 15, response = ''always''\<rparr>]))"
  by code_simp

end
